theory Spec2Isabelle
  imports Main
begin

section \<open>Errors and the file system\<close>

text \<open>
  Every exception the modelled code can raise is a value of \<open>error\<close>. The wrappers keep
  the exception they wrap, as the formatted messages of the source do.
\<close>

datatype error =
    OSError
  | ValueError
  | InvalidPathError
  | DomainFileNotFoundError string
  | TypeError
  | RuntimeError
  | OperationFailedError string string string
  | FailedToReverse string error
  | UndoFailed error
  | FailedToMoveOrCopy string error

type_synonym path = string

text \<open>
  The file system holds regular files only: a path is mapped to the bytes stored there.
  Directories are not represented; creating one can only fail or succeed.
\<close>

type_synonym fs = "path \<Rightarrow> string option"

text \<open>
  What the platform does is not in the source, so it is a parameter: \<open>io_env\<close> says which
  primitive calls raise \<open>OSError\<close>. A copy can fail before the destination is opened
  (\<open>OpenFault\<close>) or after \<open>k\<close> bytes have been written to it (\<open>WriteFault k\<close>).
  \<open>mkdir_fails p\<close> is about creating the parent directory of the file \<open>p\<close>.
\<close>

datatype copy_fault = NoFault | OpenFault | WriteFault nat

record io_env =
  rename_fails :: "path \<Rightarrow> path \<Rightarrow> bool"
  copy_fault_of :: "path \<Rightarrow> path \<Rightarrow> copy_fault"
  unlink_fails :: "path \<Rightarrow> bool"
  mkdir_fails :: "path \<Rightarrow> bool"
  history_write_fails :: bool

text \<open>
  \<open>shutil.copy2(src, dst)\<close> of the standard library: the source is opened (it must exist
  and differ from the destination), the destination is opened for writing, which creates
  or truncates it, and the bytes are copied. An error while writing leaves what was
  written so far.
\<close>

definition shutil_copy2 :: "io_env \<Rightarrow> path \<Rightarrow> path \<Rightarrow> fs \<Rightarrow> (error + unit) \<times> fs" where
  "shutil_copy2 env src dst files =
     (case files src of
        None \<Rightarrow> (Inl OSError, files)
      | Some content \<Rightarrow>
          if src = dst then (Inl OSError, files)
          else (case copy_fault_of env src dst of
                  OpenFault \<Rightarrow> (Inl OSError, files)
                | WriteFault k \<Rightarrow> (Inl OSError, files(dst \<mapsto> take k content))
                | NoFault \<Rightarrow> (Inr (), files(dst \<mapsto> content))))"

text \<open>
  \<open>shutil.move(src, dst)\<close> of the standard library, for regular files: \<open>os.rename\<close> first;
  when that raises \<open>OSError\<close> (another volume), the file is copied with \<open>copy2\<close> and the
  source is unlinked afterwards.
\<close>

definition shutil_move :: "io_env \<Rightarrow> path \<Rightarrow> path \<Rightarrow> fs \<Rightarrow> (error + unit) \<times> fs" where
  "shutil_move env src dst files =
     (case files src of
        None \<Rightarrow> (Inl OSError, files)
      | Some content \<Rightarrow>
          if \<not> rename_fails env src dst then (Inr (), (files(src := None))(dst \<mapsto> content))
          else (case shutil_copy2 env src dst files of
                  (Inl e, files') \<Rightarrow> (Inl e, files')
                | (Inr u, files') \<Rightarrow>
                    if unlink_fails env src then (Inl OSError, files')
                    else (Inr (), files'(src := None))))"

section \<open>The undo manager (undo_manager.py)\<close>

text \<open>
  An \<open>UndoOperation\<close>. The timestamp is \<open>datetime.now()\<close> in microseconds; the metadata
  dictionary is an association list, read with \<open>map_of\<close>. The id of the source is a
  formatting of type and timestamp, kept here as that pair.
\<close>

record UndoOperation =
  operation_type :: string
  source :: path
  destination :: path
  metadata :: "(string \<times> string) list"
  timestamp :: int
  op_id :: "string \<times> int"

definition UndoOperation_init ::
  "int \<Rightarrow> string \<Rightarrow> path \<Rightarrow> path \<Rightarrow> (string \<times> string) list \<Rightarrow> UndoOperation" where
  "UndoOperation_init now typ src dst meta =
     \<lparr>operation_type = typ, source = src, destination = dst, metadata = meta,
      timestamp = now, op_id = (typ, now)\<rparr>"

text \<open>
  \<open>collections.deque(maxlen=n).append(x)\<close>: the element is added on the right and, when
  the deque is then longer than \<open>n\<close>, elements are dropped from the left.
\<close>

definition deque_append :: "nat \<Rightarrow> 'a list \<Rightarrow> 'a \<Rightarrow> 'a list" where
  "deque_append maxlen xs x = drop (length (xs @ [x]) - maxlen) (xs @ [x])"

text \<open>
  The manager. Both stacks have their most recent entry last. \<open>saved_history\<close> is the
  content of the history file: the two stacks as last written, if any.
\<close>

record UndoManager =
  max_history :: nat
  undo_stack :: "UndoOperation list"
  redo_stack :: "UndoOperation list"
  current_job_operations :: "UndoOperation list"
  current_job_id :: "string option"
  saved_history :: "(UndoOperation list \<times> UndoOperation list) option"

definition load_history :: "UndoManager \<Rightarrow> UndoManager" where
  "load_history m =
     (case saved_history m of
        None \<Rightarrow> m
      | Some (us, rs) \<Rightarrow>
          m\<lparr>undo_stack := fold (\<lambda>x acc. deque_append (max_history m) acc x) us [],
            redo_stack := fold (\<lambda>x acc. deque_append (max_history m) acc x) rs []\<rparr>)"

definition UndoManager_init ::
  "nat \<Rightarrow> (UndoOperation list \<times> UndoOperation list) option \<Rightarrow> UndoManager" where
  "UndoManager_init n saved =
     load_history \<lparr>max_history = n, undo_stack = [], redo_stack = [],
                   current_job_operations = [], current_job_id = None,
                   saved_history = saved\<rparr>"

text \<open>
  \<open>save_history\<close> swallows every exception (it prints a warning); the model keeps the
  previous snapshot then.
\<close>

definition save_history :: "io_env \<Rightarrow> UndoManager \<Rightarrow> UndoManager" where
  "save_history env m =
     (if history_write_fails env then m
      else m\<lparr>saved_history := Some (undo_stack m, redo_stack m)\<rparr>)"

definition start_job :: "string \<Rightarrow> UndoManager \<Rightarrow> UndoManager" where
  "start_job job_id m = m\<lparr>current_job_id := Some job_id, current_job_operations := []\<rparr>"

definition record_operation ::
  "int \<Rightarrow> string \<Rightarrow> path \<Rightarrow> path \<Rightarrow> (string \<times> string) list \<Rightarrow> UndoManager \<Rightarrow> UndoManager" where
  "record_operation now typ src dst meta m =
     (let operation = UndoOperation_init now typ src dst meta in
      m\<lparr>current_job_operations := current_job_operations m @ [operation],
        undo_stack := deque_append (max_history m) (undo_stack m) operation,
        redo_stack := []\<rparr>)"

definition end_job :: "io_env \<Rightarrow> bool \<Rightarrow> UndoManager \<Rightarrow> UndoManager" where
  "end_job env save_to_disk m =
     (let m1 = (if save_to_disk then save_history env m else m) in
      m1\<lparr>current_job_id := None, current_job_operations := []\<rparr>)"

text \<open>
  \<open>_reverse_operation\<close>. \<open>exists()\<close> is a lookup in the file system; \<open>mkdir\<close>, \<open>move\<close>,
  \<open>unlink\<close> and \<open>copy2\<close> can raise, and every exception is wrapped and raised again.
\<close>

definition reverse_operation :: "io_env \<Rightarrow> UndoOperation \<Rightarrow> fs \<Rightarrow> (error + bool) \<times> fs" where
  "reverse_operation env operation files =
     (if operation_type operation = ''move'' then
        (if files (destination operation) \<noteq> None then
           (if mkdir_fails env (source operation)
            then (Inl (FailedToReverse ''move'' OSError), files)
            else (case shutil_move env (destination operation) (source operation) files of
                    (Inl e, files') \<Rightarrow> (Inl (FailedToReverse ''move'' e), files')
                  | (Inr u, files') \<Rightarrow> (Inr True, files')))
         else (Inr False, files))
      else if operation_type operation = ''copy'' then
        (if files (destination operation) \<noteq> None then
           (if unlink_fails env (destination operation)
            then (Inl (FailedToReverse ''copy'' OSError), files)
            else (Inr True, files(destination operation := None)))
         else (Inr False, files))
      else if operation_type operation = ''delete'' then
        (case map_of (metadata operation) ''backup_path'' of
           None \<Rightarrow> (Inr False, files)
         | Some backup_path \<Rightarrow>
             if backup_path \<noteq> [] \<and> files backup_path \<noteq> None then
               (if mkdir_fails env (destination operation)
                then (Inl (FailedToReverse ''delete'' OSError), files)
                else (case shutil_copy2 env backup_path (destination operation) files of
                        (Inl e, files') \<Rightarrow> (Inl (FailedToReverse ''delete'' e), files')
                      | (Inr u, files') \<Rightarrow> (Inr True, files')))
             else (Inr False, files))
      else (Inr False, files))"

definition undo_last_operation ::
  "io_env \<Rightarrow> UndoManager \<Rightarrow> fs \<Rightarrow> (error + bool) \<times> UndoManager \<times> fs" where
  "undo_last_operation env m files =
     (if undo_stack m = [] then (Inr False, m, files)
      else
        (let operation = last (undo_stack m);
             m1 = m\<lparr>undo_stack := butlast (undo_stack m)\<rparr>
         in case reverse_operation env operation files of
              (Inr success, files') \<Rightarrow>
                if success then
                  (Inr True,
                   save_history env
                     (m1\<lparr>redo_stack := deque_append (max_history m1) (redo_stack m1) operation\<rparr>),
                   files')
                else
                  (Inr False,
                   m1\<lparr>undo_stack := deque_append (max_history m1) (undo_stack m1) operation\<rparr>,
                   files')
            | (Inl e, files') \<Rightarrow>
                (Inl (UndoFailed e),
                 m1\<lparr>undo_stack := deque_append (max_history m1) (undo_stack m1) operation\<rparr>,
                 files')))"

text \<open>
  \<open>undo_last_job\<close>, first loop: entries are popped from the undo stack while their
  timestamp is at most 60 seconds before that of the most recent entry. The first entry
  outside the window goes to \<open>temp_stack\<close> and ends the loop. The result is the stack
  left, the job's operations in the order popped, and \<open>temp_stack\<close>.
\<close>

function collect_job_operations ::
  "int \<Rightarrow> UndoOperation list \<Rightarrow> UndoOperation list \<Rightarrow>
   UndoOperation list \<times> UndoOperation list \<times> UndoOperation list" where
  "collect_job_operations last_job_time stack job_operations =
     (if stack = [] then (stack, job_operations, [])
      else if last_job_time - timestamp (last stack) \<le> 60000000
      then collect_job_operations last_job_time (butlast stack) (job_operations @ [last stack])
      else (butlast stack, job_operations, [last stack]))"
  by pat_completeness auto
termination
  by (relation "measure (\<lambda>(t, stack, job). length stack)") auto

declare collect_job_operations.simps [simp del]

text \<open>Second loop: \<open>temp_stack\<close> is popped back onto the undo stack.\<close>

fun restore_temp_stack :: "nat \<Rightarrow> UndoOperation list \<Rightarrow> UndoOperation list \<Rightarrow> UndoOperation list" where
  "restore_temp_stack n stack temp_stack =
     fold (\<lambda>x acc. deque_append n acc x) (rev temp_stack) stack"

record undo_stats =
  total :: nat
  successful :: nat
  failed :: nat
  errors :: "error list"

datatype undo_message = NoOperationsToUndo | NoJobOperationsFound | Undone nat nat

record undo_job_result =
  success :: bool
  stats :: "undo_stats option"
  message :: undo_message

text \<open>
  Third loop: each operation of the job is reversed in the order it was popped. A
  reversal that returns False or raises puts the operation back on the undo stack and
  the loop goes on.
\<close>

fun reverse_job_operations ::
  "io_env \<Rightarrow> UndoOperation list \<Rightarrow> undo_stats \<times> UndoManager \<times> fs \<Rightarrow>
   undo_stats \<times> UndoManager \<times> fs" where
  "reverse_job_operations env [] acc = acc"
| "reverse_job_operations env (operation # rest) (st, m, files) =
     reverse_job_operations env rest
       (case reverse_operation env operation files of
          (Inr ok, files') \<Rightarrow>
            if ok then
              (st\<lparr>successful := successful st + 1\<rparr>,
               m\<lparr>redo_stack := deque_append (max_history m) (redo_stack m) operation\<rparr>,
               files')
            else
              (st\<lparr>failed := failed st + 1\<rparr>,
               m\<lparr>undo_stack := deque_append (max_history m) (undo_stack m) operation\<rparr>,
               files')
        | (Inl e, files') \<Rightarrow>
            (st\<lparr>failed := failed st + 1, errors := errors st @ [e]\<rparr>,
             m\<lparr>undo_stack := deque_append (max_history m) (undo_stack m) operation\<rparr>,
             files'))"

definition undo_last_job ::
  "io_env \<Rightarrow> UndoManager \<Rightarrow> fs \<Rightarrow> undo_job_result \<times> UndoManager \<times> fs" where
  "undo_last_job env m files =
     (if undo_stack m = []
      then (\<lparr>success = False, stats = None, message = NoOperationsToUndo\<rparr>, m, files)
      else
        (case collect_job_operations (timestamp (last (undo_stack m))) (undo_stack m) [] of
           (stack, job_operations, temp_stack) \<Rightarrow>
             (let m1 = m\<lparr>undo_stack := restore_temp_stack (max_history m) stack temp_stack\<rparr> in
              if job_operations = []
              then (\<lparr>success = False, stats = None, message = NoJobOperationsFound\<rparr>, m1, files)
              else
                (case reverse_job_operations env job_operations
                        (\<lparr>total = length job_operations, successful = 0, failed = 0,
                          errors = []\<rparr>, m1, files) of
                   (st, m2, files') \<Rightarrow>
                     (\<lparr>success = (failed st = 0), stats = Some st,
                       message = Undone (successful st) (total st)\<rparr>,
                      save_history env m2, files')))))"

section \<open>Paths and extensions\<close>

text \<open>\<open>str.lower()\<close> on ASCII text.\<close>

definition lower_char :: "char \<Rightarrow> char" where
  "lower_char c =
     (case map_of (zip ''ABCDEFGHIJKLMNOPQRSTUVWXYZ'' ''abcdefghijklmnopqrstuvwxyz'') c of
        Some d \<Rightarrow> d
      | None \<Rightarrow> c)"

definition lower :: "string \<Rightarrow> string" where
  "lower s = map lower_char s"

text \<open>\<open>os.path.join\<close> of a directory and a relative name.\<close>

definition path_join :: "path \<Rightarrow> string \<Rightarrow> path" where
  "path_join a b = (if a = [] \<or> last a = CHR ''/'' then a @ b else a @ ''/'' @ b)"

text \<open>The final component of a path: what follows the last separator.\<close>

definition path_name :: "path \<Rightarrow> string" where
  "path_name p = rev (takeWhile (\<lambda>c. c \<noteq> CHR ''/'') (rev p))"

text \<open>
  \<open>PurePath.suffix\<close>: with \<open>i\<close> the index of the last dot of the name, the suffix is
  \<open>name[i:]\<close> when \<open>0 < i < len(name) - 1\<close>, and empty otherwise (also when there is no
  dot).
\<close>

definition path_suffix :: "path \<Rightarrow> string" where
  "path_suffix p =
     (let name = path_name p;
          after = takeWhile (\<lambda>c. c \<noteq> CHR ''.'') (rev name)
      in if length after = length name then []
         else (let i = length name - length after - 1
               in if 0 < i \<and> i < length name - 1 then drop i name else []))"

section \<open>The scanner (services/scanning_service.py)\<close>

record stat_result =
  st_size :: nat
  st_mtime :: int
  st_ctime :: int

text \<open>
  A \<open>FilePath\<close> keeps the path as given and the path it resolves to (absolute, symbolic
  links followed). What a path resolves to is decided by the file system, so the
  outcome of \<open>Path.resolve()\<close> is a parameter: \<open>OSError\<close> and \<open>ValueError\<close> become
  \<open>InvalidPathError\<close>, any other exception leaves the constructor as it is.
\<close>

record FilePath =
  path :: path
  resolved :: path

definition FilePath_init :: "path \<Rightarrow> error + path \<Rightarrow> error + FilePath" where
  "FilePath_init p resolution =
     (if p = [] then Inl InvalidPathError
      else (case resolution of
              Inl e \<Rightarrow> if e = OSError \<or> e = ValueError then Inl InvalidPathError else Inl e
            | Inr r \<Rightarrow> Inr \<lparr>path = p, resolved = r\<rparr>))"

text \<open>
  The directory tree is what \<open>os.walk\<close>, \<open>resolve\<close> and \<open>stat\<close> find. A file is stat-ed
  twice, once by the filter and once when its \<open>FileItem\<close> is built; each call has its own
  outcome, since the file can change or vanish in between. A directory carries the
  outcome of resolving it, the outcome of its own \<open>stat\<close>, its files and its
  subdirectories as listed.
\<close>

record file_entry =
  file_name :: string
  resolve_result :: "error + path"
  stat_for_filter :: "error + stat_result"
  stat_for_item :: "error + stat_result"

datatype dir_tree =
  Dir (dir_name: string) (dir_resolved: "error + path") (dir_stat: "error + stat_result")
      (dir_files: "file_entry list") (subdirs: "dir_tree list")

text \<open>
  A \<open>FileItem\<close>; its field \<open>path\<close> of the source is \<open>item_path\<close> here. The property
  \<open>extension\<close> of the source, \<open>FileItem_extension\<close> here, is the suffix of the resolved
  path.
\<close>

record FileItem =
  item_path :: FilePath
  size :: nat
  modified :: int

definition FileItem_extension :: "FileItem \<Rightarrow> string" where
  "FileItem_extension file_item = path_suffix (resolved (item_path file_item))"

record FolderItem =
  folder_item_path :: FilePath
  folder_name :: string
  created :: int
  folder_modified :: int
  file_count :: nat

datatype scan_error = CannotRead path error | CannotAccessDirectory path error

record ScanResult =
  files :: "FileItem list"
  folders :: "FolderItem list"
  total_count :: nat
  scan_errors :: "scan_error list"

text \<open>
  \<open>_should_include_file\<close>. The extension tested is the suffix of the path as given, in
  lower case. An extension set that is None or empty is falsy and switches the
  extension filter off; so does a maximum size of None or 0. The dates are timestamps,
  truthy whenever given. An \<open>OSError\<close> of \<open>stat\<close> makes the answer False.
\<close>

definition should_include_file ::
  "FilePath \<Rightarrow> error + stat_result \<Rightarrow> string set option \<Rightarrow> int \<Rightarrow> int option \<Rightarrow>
   int option \<Rightarrow> int option \<Rightarrow> bool" where
  "should_include_file file_path st extensions min_size max_size min_date max_date =
     (if (case extensions of
            None \<Rightarrow> False
          | Some E \<Rightarrow> E \<noteq> {} \<and> lower (path_suffix (path file_path)) \<notin> E)
      then False
      else (case st of
              Inl e \<Rightarrow> False
            | Inr stat_info \<Rightarrow>
                if int (st_size stat_info) < min_size then False
                else if (case max_size of
                           None \<Rightarrow> False
                         | Some mx \<Rightarrow> mx \<noteq> 0 \<and> int (st_size stat_info) > mx)
                then False
                else if (case min_date of None \<Rightarrow> False | Some d \<Rightarrow> st_mtime stat_info < d)
                then False
                else if (case max_date of None \<Rightarrow> False | Some d \<Rightarrow> st_mtime stat_info > d)
                then False
                else True))"

record scan_state =
  files_acc :: "FileItem list"
  folders_acc :: "FolderItem list"
  errors_acc :: "scan_error list"
  skipped_count :: nat

text \<open>
  The loop over the files of one directory. An exception of \<open>FilePath\<close> is not an
  \<open>OSError\<close>, so no handler of the loop catches it and it ends the loop.
\<close>

fun process_files ::
  "string set option \<Rightarrow> int \<Rightarrow> int option \<Rightarrow> int option \<Rightarrow> int option \<Rightarrow>
   path \<Rightarrow> file_entry list \<Rightarrow> scan_state \<Rightarrow> error + scan_state" where
  "process_files extensions min_size max_size min_date max_date dir_path [] s = Inr s"
| "process_files extensions min_size max_size min_date max_date dir_path (f # rest) s =
     (case FilePath_init (path_join dir_path (file_name f)) (resolve_result f) of
        Inl e \<Rightarrow> Inl e
      | Inr file_path \<Rightarrow>
          process_files extensions min_size max_size min_date max_date dir_path rest
            (if \<not> should_include_file file_path (stat_for_filter f) extensions min_size
                     max_size min_date max_date
             then s\<lparr>skipped_count := skipped_count s + 1\<rparr>
             else (case stat_for_item f of
                     Inr stat_info \<Rightarrow>
                       s\<lparr>files_acc := files_acc s @
                           [\<lparr>item_path = file_path, size = st_size stat_info,
                             modified = st_mtime stat_info\<rparr>]\<rparr>
                   | Inl e \<Rightarrow>
                       s\<lparr>errors_acc := errors_acc s @ [CannotRead (path file_path) e]\<rparr>)))"

text \<open>
  The loop over \<open>os.walk\<close>, top-down: a directory is handled, then each subdirectory
  whose name is not excluded, in the order listed. A directory whose \<open>stat\<close> fails is
  reported and its files are not processed; its subdirectories are still walked. An
  exception of \<open>FilePath\<close> ends the walk.
\<close>

fun walk ::
  "string set option \<Rightarrow> int \<Rightarrow> int option \<Rightarrow> int option \<Rightarrow> int option \<Rightarrow> string set \<Rightarrow>
   path \<Rightarrow> dir_tree \<Rightarrow> scan_state \<Rightarrow> error + scan_state"
and walk_subdirs ::
  "string set option \<Rightarrow> int \<Rightarrow> int option \<Rightarrow> int option \<Rightarrow> int option \<Rightarrow> string set \<Rightarrow>
   path \<Rightarrow> dir_tree list \<Rightarrow> scan_state \<Rightarrow> error + scan_state" where
  "walk extensions min_size max_size min_date max_date exclude dir_path
        (Dir name rs st fs ds) s =
     (case FilePath_init dir_path rs of
        Inl e \<Rightarrow> Inl e
      | Inr folder_path \<Rightarrow>
          (case st of
             Inl e \<Rightarrow>
               walk_subdirs extensions min_size max_size min_date max_date exclude dir_path ds
                 (s\<lparr>errors_acc := errors_acc s @ [CannotAccessDirectory dir_path e]\<rparr>)
           | Inr folder_stat \<Rightarrow>
               (case process_files extensions min_size max_size min_date max_date dir_path fs
                       (s\<lparr>folders_acc := folders_acc s @
                           [\<lparr>folder_item_path = folder_path, folder_name = path_name dir_path,
                             created = st_ctime folder_stat,
                             folder_modified = st_mtime folder_stat,
                             file_count = length fs\<rparr>]\<rparr>) of
                  Inl e \<Rightarrow> Inl e
                | Inr s' \<Rightarrow>
                    walk_subdirs extensions min_size max_size min_date max_date exclude
                      dir_path ds s')))"
| "walk_subdirs extensions min_size max_size min_date max_date exclude dir_path [] s = Inr s"
| "walk_subdirs extensions min_size max_size min_date max_date exclude dir_path (d # ds) s =
     (if dir_name d \<in> exclude
      then walk_subdirs extensions min_size max_size min_date max_date exclude dir_path ds s
      else (case walk extensions min_size max_size min_date max_date exclude
                   (path_join dir_path (dir_name d)) d s of
              Inl e \<Rightarrow> Inl e
            | Inr s' \<Rightarrow>
                walk_subdirs extensions min_size max_size min_date max_date exclude
                  dir_path ds s'))"

definition default_exclude_dirs :: "string set" where
  "default_exclude_dirs = {''.git'', ''__pycache__'', ''.venv'', ''node_modules''}"

text \<open>\<open>exclude_dirs or {...}\<close>: None and the empty set give the default.\<close>

definition exclude_or_default :: "string set option \<Rightarrow> string set" where
  "exclude_or_default exclude_dirs =
     (case exclude_dirs of
        None \<Rightarrow> default_exclude_dirs
      | Some X \<Rightarrow> if X = {} then default_exclude_dirs else X)"

text \<open>
  The outer handlers of \<open>scan\<close>: an \<open>InvalidPathError\<close> is raised again; for any other
  exception the handler builds \<open>OperationFailedError\<close> without its required argument
  \<open>operation\<close>, so what leaves the function is a \<open>TypeError\<close>.
\<close>

definition scan_raise :: "error \<Rightarrow> error" where
  "scan_raise e = (if e = InvalidPathError then InvalidPathError else TypeError)"

text \<open>
  \<open>scan\<close>, without a progress callback and without cancellation. \<open>tree\<close> is the directory
  found at the root; the root path is resolved as that directory is.
\<close>

definition scan ::
  "path \<Rightarrow> dir_tree \<Rightarrow> string set option \<Rightarrow> int \<Rightarrow> int option \<Rightarrow> int option \<Rightarrow>
   int option \<Rightarrow> string set option \<Rightarrow> error + ScanResult" where
  "scan root_path tree extensions min_size max_size min_date max_date exclude_dirs =
     (case FilePath_init root_path (dir_resolved tree) of
        Inl e \<Rightarrow> Inl (scan_raise e)
      | Inr root \<Rightarrow>
          (case walk extensions min_size max_size min_date max_date
                  (exclude_or_default exclude_dirs) (path root) tree
                  \<lparr>files_acc = [], folders_acc = [], errors_acc = [], skipped_count = 0\<rparr> of
             Inl e \<Rightarrow> Inl (scan_raise e)
           | Inr s \<Rightarrow>
               Inr \<lparr>files = files_acc s, folders = folders_acc s,
                    total_count = length (files_acc s), scan_errors = errors_acc s\<rparr>))"




section \<open>The categorizer (services/categorization_service.py)\<close>

text \<open>
  The rule set is a dictionary from category name to extension list, kept as the list
  of its items in order. The index \<open>extension_map\<close> is a dictionary from extension to
  category name.
\<close>

record CategorizationService =
  category_mappings :: "(string \<times> string list) list"
  default_category :: string
  extension_map :: "string \<Rightarrow> string option"

definition DEFAULT_CATEGORY_MAPPINGS :: "(string \<times> string list) list" where
  "DEFAULT_CATEGORY_MAPPINGS =
     [(''Documents'', [''.pdf'', ''.doc'', ''.docx'', ''.txt'', ''.xlsx'', ''.xls'', ''.ppt'',
                       ''.pptx'']),
      (''Images'', [''.jpg'', ''.jpeg'', ''.png'', ''.gif'', ''.bmp'', ''.svg'', ''.ico'',
                    ''.webp'']),
      (''Videos'', [''.mp4'', ''.avi'', ''.mkv'', ''.mov'', ''.flv'', ''.wmv'', ''.m4v'',
                    ''.webm'']),
      (''Audio'', [''.mp3'', ''.wav'', ''.flac'', ''.aac'', ''.ogg'', ''.wma'', ''.m4a'',
                   ''.aiff'']),
      (''Code'', [''.py'', ''.js'', ''.ts'', ''.java'', ''.cpp'', ''.c'', ''.h'', ''.go'', ''.rs'',
                  ''.rb'']),
      (''Archives'', [''.zip'', ''.rar'', ''.7z'', ''.tar'', ''.gz'', ''.bz2'', ''.iso'']),
      (''Executables'', [''.exe'', ''.msi'', ''.bat'', ''.sh'', ''.app'', ''.dmg'', ''.apk'']),
      (''Spreadsheets'', [''.csv'', ''.tsv'']),
      (''Presentations'', []),
      (''Source'', [''.sql'', ''.xml'', ''.html'', ''.css'', ''.json'', ''.yaml'', ''.yml'']),
      (''Other'', [])]"

text \<open>
  \<open>_build_extension_map\<close> writes one entry per extension of the rule set into the index
  it finds; it does not empty the index first.
\<close>

definition build_extension_map :: "CategorizationService \<Rightarrow> CategorizationService" where
  "build_extension_map svc =
     svc\<lparr>extension_map :=
           fold (\<lambda>(category, extensions) m.
                   fold (\<lambda>ext m'. m'(lower ext \<mapsto> category)) extensions m)
                (category_mappings svc) (extension_map svc)\<rparr>"

definition CategorizationService_init ::
  "(string \<times> string list) list option \<Rightarrow> string \<Rightarrow> CategorizationService" where
  "CategorizationService_init mappings default_cat =
     build_extension_map
       \<lparr>category_mappings =
          (case mappings of
             None \<Rightarrow> DEFAULT_CATEGORY_MAPPINGS
           | Some ms \<Rightarrow> if ms = [] then DEFAULT_CATEGORY_MAPPINGS else ms),
        default_category = default_cat,
        extension_map = (\<lambda>ext. None)\<rparr>"

text \<open>\<open>Category(name)\<close> refuses an empty name.\<close>

definition Category_init :: "string \<Rightarrow> error + string" where
  "Category_init name = (if name = [] then Inl ValueError else Inr name)"

text \<open>
  \<open>categorize\<close>, on the path of the file. Its handler builds \<open>CategoryNotFoundError\<close> with
  a keyword that exception does not take, so what leaves the function then is a
  \<open>TypeError\<close>.
\<close>

definition categorize :: "CategorizationService \<Rightarrow> path \<Rightarrow> error + string" where
  "categorize svc file_path =
     (let extension = lower (path_suffix file_path) in
      case (case extension_map svc extension of
              Some category_name \<Rightarrow> Category_init category_name
            | None \<Rightarrow> Category_init (default_category svc)) of
        Inl e \<Rightarrow> Inl TypeError
      | Inr c \<Rightarrow> Inr c)"

text \<open>
  \<open>load_from_config\<close>. \<open>parsed\<close> is what opening and parsing the file gives: an error,
  raised again, or the mapping.
\<close>

definition load_from_config ::
  "error + (string \<times> string list) list \<Rightarrow> CategorizationService \<Rightarrow>
   (error + unit) \<times> CategorizationService" where
  "load_from_config parsed svc =
     (case parsed of
        Inl e \<Rightarrow> (Inl e, svc)
      | Inr config \<Rightarrow> (Inr (), build_extension_map (svc\<lparr>category_mappings := config\<rparr>)))"

section \<open>The duplicate detector (services/duplicate_service.py)\<close>

record FileHash =
  digest :: string
  algorithm :: string

text \<open>\<open>str.isalnum()\<close> on ASCII text: no character other than a letter or a digit.\<close>

definition isalnum_char :: "char \<Rightarrow> bool" where
  "isalnum_char c =
     (c \<in> set ''abcdefghijklmnopqrstuvwxyzABCDEFGHIJKLMNOPQRSTUVWXYZ0123456789'')"

definition FileHash_init :: "string \<Rightarrow> string \<Rightarrow> error + FileHash" where
  "FileHash_init d alg =
     (if d = [] then Inl ValueError
      else if \<not> list_all isalnum_char d then Inl ValueError
      else Inr \<lparr>digest = d, algorithm = alg\<rparr>)"

record DuplicateGroup =
  group_hash :: FileHash
  group_files :: "FileItem list"
  original :: "FileItem option"

text \<open>
  \<open>DuplicateGroup.__post_init__\<close>: fewer than two files raise \<open>ValueError\<close>; an original
  that was not given is the first file.
\<close>

definition DuplicateGroup_init ::
  "FileHash \<Rightarrow> FileItem list \<Rightarrow> FileItem option \<Rightarrow> error + DuplicateGroup" where
  "DuplicateGroup_init h fs orig =
     (if length fs < 2 then Inl ValueError
      else Inr \<lparr>group_hash = h, group_files = fs,
                original = (case orig of None \<Rightarrow> Some (fs ! 0) | Some f \<Rightarrow> Some f)\<rparr>)"

text \<open>
  \<open>FileReader.compute_hash\<close> through \<open>_compute_file_hash\<close>. An algorithm the reader does
  not know is refused. \<open>reader\<close> is the file system seen by the reader: for each path the
  hex digest of the bytes there, or the error raised on the way to it.
\<close>

definition HASH_ALGORITHMS :: "string list" where
  "HASH_ALGORITHMS = [''md5'', ''sha256'', ''sha512'']"

definition compute_file_hash ::
  "(path \<Rightarrow> error + string) \<Rightarrow> string \<Rightarrow> FileItem \<Rightarrow> error + FileHash" where
  "compute_file_hash reader alg file_item =
     (if alg \<notin> set HASH_ALGORITHMS then Inl ValueError
      else (case reader (path (item_path file_item)) of
              Inl e \<Rightarrow> Inl e
            | Inr d \<Rightarrow> FileHash_init d alg))"

text \<open>
  \<open>hash_map[digest].append(file_item)\<close> on a \<open>defaultdict(list)\<close>, whose keys keep the
  order of their first insertion.
\<close>

fun hash_map_append ::
  "(string \<times> FileItem list) list \<Rightarrow> string \<Rightarrow> FileItem \<Rightarrow> (string \<times> FileItem list) list" where
  "hash_map_append [] k v = [(k, [v])]"
| "hash_map_append ((k', vs) # rest) k v =
     (if k' = k then (k', vs @ [v]) # rest else (k', vs) # hash_map_append rest k v)"

text \<open>First loop: every file is hashed; a file that cannot be hashed is left out.\<close>

fun hash_all ::
  "(path \<Rightarrow> error + string) \<Rightarrow> string \<Rightarrow> FileItem list \<Rightarrow> (string \<times> FileItem list) list \<Rightarrow>
   (string \<times> FileItem list) list" where
  "hash_all reader alg [] hash_map = hash_map"
| "hash_all reader alg (file_item # rest) hash_map =
     hash_all reader alg rest
       (case compute_file_hash reader alg file_item of
          Inr file_hash \<Rightarrow> hash_map_append hash_map (digest file_hash) file_item
        | Inl e \<Rightarrow> hash_map)"

text \<open>
  Second loop: one group per digest with two files or more. An exception of a
  constructor ends the function.
\<close>

fun group_duplicates ::
  "string \<Rightarrow> (string \<times> FileItem list) list \<Rightarrow> error + DuplicateGroup list" where
  "group_duplicates alg [] = Inr []"
| "group_duplicates alg ((hash_digest, file_list) # rest) =
     (if length file_list \<ge> 2 then
        (case FileHash_init hash_digest alg of
           Inl e \<Rightarrow> Inl e
         | Inr file_hash \<Rightarrow>
             (case DuplicateGroup_init file_hash file_list (Some (file_list ! 0)) of
                Inl e \<Rightarrow> Inl e
              | Inr g \<Rightarrow>
                  (case group_duplicates alg rest of
                     Inl e \<Rightarrow> Inl e
                   | Inr gs \<Rightarrow> Inr (g # gs))))
      else group_duplicates alg rest)"

text \<open>
  \<open>detect_duplicates\<close>, without a progress callback. Its outer handler builds
  \<open>DuplicateDetectionError\<close> without the required \<open>file_path\<close>, so what leaves the
  function then is a \<open>TypeError\<close>.
\<close>

definition detect_duplicates ::
  "(path \<Rightarrow> error + string) \<Rightarrow> string \<Rightarrow> FileItem list \<Rightarrow> error + DuplicateGroup list" where
  "detect_duplicates reader alg fs =
     (case group_duplicates alg (hash_all reader alg fs []) of
        Inl e \<Rightarrow> Inl TypeError
      | Inr gs \<Rightarrow> Inr gs)"

section \<open>Moving and copying files\<close>

text \<open>\<open>FileOrganizerPro.move_or_copy_file\<close> (file_organizer_pro.py).\<close>

definition move_or_copy_file ::
  "io_env \<Rightarrow> string \<Rightarrow> path \<Rightarrow> path \<Rightarrow> fs \<Rightarrow> (error + unit) \<times> fs" where
  "move_or_copy_file env operation_mode src dst fls =
     (case (if operation_mode = ''move'' then shutil_move env src dst fls
            else shutil_copy2 env src dst fls) of
        (Inl e, fls') \<Rightarrow> (Inl (FailedToMoveOrCopy operation_mode e), fls')
      | (Inr u, fls') \<Rightarrow> (Inr (), fls'))"

text \<open>\<open>FileOperations.copy\<close> and \<open>FileOperations.move\<close> (file_reader_writer.py).\<close>

definition FileOperations_copy :: "io_env \<Rightarrow> path \<Rightarrow> path \<Rightarrow> fs \<Rightarrow> (error + unit) \<times> fs" where
  "FileOperations_copy env src dst fls =
     (if fls src = None then (Inl (DomainFileNotFoundError src), fls)
      else if mkdir_fails env dst then (Inl (OperationFailedError ''copy'' src dst), fls)
      else (case shutil_copy2 env src dst fls of
              (Inl e, fls') \<Rightarrow> (Inl (OperationFailedError ''copy'' src dst), fls')
            | (Inr u, fls') \<Rightarrow> (Inr (), fls')))"

definition FileOperations_move :: "io_env \<Rightarrow> path \<Rightarrow> path \<Rightarrow> fs \<Rightarrow> (error + unit) \<times> fs" where
  "FileOperations_move env src dst fls =
     (if fls src = None then (Inl (DomainFileNotFoundError src), fls)
      else if mkdir_fails env dst then (Inl (OperationFailedError ''move'' src dst), fls)
      else (case shutil_move env src dst fls of
              (Inl e, fls') \<Rightarrow> (Inl (OperationFailedError ''move'' src dst), fls')
            | (Inr u, fls') \<Rightarrow> (Inr (), fls')))"

section \<open>Concrete runs\<close>

text \<open>A platform on which no call fails, and one on which a file cannot be moved.\<close>

definition env_ok :: io_env where
  "env_ok = \<lparr>rename_fails = (\<lambda>s d. False), copy_fault_of = (\<lambda>s d. NoFault),
             unlink_fails = (\<lambda>p. False), mkdir_fails = (\<lambda>p. False),
             history_write_fails = False\<rparr>"

definition env_no_move :: io_env where
  "env_no_move = \<lparr>rename_fails = (\<lambda>s d. True), copy_fault_of = (\<lambda>s d. OpenFault),
                  unlink_fails = (\<lambda>p. False), mkdir_fails = (\<lambda>p. False),
                  history_write_fails = False\<rparr>"

text \<open>
  Scenario 3 of the specification: a move of \<open>/src/f.txt\<close> to \<open>/dst/f.txt\<close> has been
  recorded; afterwards the destination was deleted, so neither path holds a file.
\<close>

definition scenario3_manager :: UndoManager where
  "scenario3_manager =
     record_operation 0 ''move'' ''/src/f.txt'' ''/dst/f.txt'' [] (UndoManager_init 1000 None)"

definition scenario3_fs :: fs where
  "scenario3_fs = (\<lambda>p. None)"

text \<open>The same move, with the destination still in place.\<close>

definition moved_fs :: fs where
  "moved_fs = [''/dst/f.txt'' \<mapsto> ''data'']"

text \<open>
  Two jobs, each started and ended, each recording one move; the second move is
  recorded ten seconds after the first.
\<close>

definition two_jobs_manager :: UndoManager where
  "two_jobs_manager =
     end_job env_ok True
       (record_operation 10000000 ''move'' ''/in/b.txt'' ''/out/b.txt'' []
          (start_job ''job2''
             (end_job env_ok True
                (record_operation 0 ''move'' ''/in/a.txt'' ''/out/a.txt'' []
                   (start_job ''job1'' (UndoManager_init 1000 None))))))"

definition two_jobs_fs :: fs where
  "two_jobs_fs = [''/out/a.txt'' \<mapsto> ''A'', ''/out/b.txt'' \<mapsto> ''B'']"

text \<open>
  Scenario 1 of the specification: a folder with a 500-byte \<open>.pdf\<close> and a 200-byte
  \<open>.jpg\<close>; the same folder with the first file named in capitals; and the folder
  holding a symbolic link \<open>link.pdf\<close> to a file \<open>target.exe\<close> elsewhere.
\<close>

definition stat_ok :: "nat \<Rightarrow> error + stat_result" where
  "stat_ok n = Inr \<lparr>st_size = n, st_mtime = 0, st_ctime = 0\<rparr>"

definition regular_file :: "string \<Rightarrow> nat \<Rightarrow> file_entry" where
  "regular_file name n =
     \<lparr>file_name = name, resolve_result = Inr (''/folder/'' @ name),
      stat_for_filter = stat_ok n, stat_for_item = stat_ok n\<rparr>"

definition file_item :: "string \<Rightarrow> nat \<Rightarrow> FileItem" where
  "file_item p n = \<lparr>item_path = \<lparr>path = p, resolved = p\<rparr>, size = n, modified = 0\<rparr>"

definition scenario1_tree :: dir_tree where
  "scenario1_tree =
     Dir ''folder'' (Inr ''/folder'') (stat_ok 0)
       [regular_file ''report.pdf'' 500, regular_file ''photo.jpg'' 200] []"

definition capitals_tree :: dir_tree where
  "capitals_tree =
     Dir ''folder'' (Inr ''/folder'') (stat_ok 0) [regular_file ''REPORT.PDF'' 500] []"

definition symlink_tree :: dir_tree where
  "symlink_tree =
     Dir ''folder'' (Inr ''/folder'') (stat_ok 0)
       [\<lparr>file_name = ''link.pdf'', resolve_result = Inr ''/elsewhere/target.exe'',
         stat_for_filter = stat_ok 500, stat_for_item = stat_ok 500\<rparr>] []"

definition symlink_item :: FileItem where
  "symlink_item =
     \<lparr>item_path = \<lparr>path = ''/folder/link.pdf'', resolved = ''/elsewhere/target.exe''\<rparr>,
      size = 500, modified = 0\<rparr>"

definition folder_item :: "nat \<Rightarrow> FolderItem" where
  "folder_item n =
     \<lparr>folder_item_path = \<lparr>path = ''/folder'', resolved = ''/folder''\<rparr>, folder_name = ''folder'',
      created = 0, folder_modified = 0, file_count = n\<rparr>"

text \<open>A folder whose only file cannot be stat-ed (permission denied, or it vanished).\<close>

definition unreadable_tree :: dir_tree where
  "unreadable_tree =
     Dir ''folder'' (Inr ''/folder'') (stat_ok 0)
       [\<lparr>file_name = ''locked.txt'', resolve_result = Inr ''/folder/locked.txt'',
         stat_for_filter = Inl OSError, stat_for_item = Inl OSError\<rparr>]
       []"

text \<open>The same folder when the file vanishes between the two calls of \<open>stat\<close>.\<close>

definition vanishing_tree :: dir_tree where
  "vanishing_tree =
     Dir ''folder'' (Inr ''/folder'') (stat_ok 0)
       [\<lparr>file_name = ''locked.txt'', resolve_result = Inr ''/folder/locked.txt'',
         stat_for_filter = stat_ok 7, stat_for_item = Inl OSError\<rparr>]
       []"

text \<open>
  A categorizer built with the one rule Documents: .pdf, into which a configuration
  with the one rule Images: .jpg is then loaded.
\<close>

definition loaded_service :: CategorizationService where
  "loaded_service =
     snd (load_from_config (Inr [(''Images'', [''.jpg''])])
            (CategorizationService_init (Some [(''Documents'', [''.pdf''])]) ''Other''))"

text \<open>
  Scenario 2 of the specification, with two more files: \<open>a.txt\<close> and \<open>b.txt\<close> hold the
  same bytes, \<open>c.txt\<close> holds other bytes and \<open>gone.txt\<close> cannot be read.
\<close>

definition scenario2_reader :: "path \<Rightarrow> error + string" where
  "scenario2_reader p =
     (if p = ''/d/a.txt'' \<or> p = ''/d/b.txt'' then Inr ''5d41402abc4b2a76b9719d911017c592''
      else if p = ''/d/c.txt'' then Inr ''7d793037a0760186574b0282f2f435e7''
      else Inl OSError)"

definition scenario2_files :: "FileItem list" where
  "scenario2_files =
     [file_item ''/d/a.txt'' 5, file_item ''/d/c.txt'' 5, file_item ''/d/b.txt'' 5,
      file_item ''/d/gone.txt'' 5]"

definition scenario2_group :: DuplicateGroup where
  "scenario2_group =
     \<lparr>group_hash = \<lparr>digest = ''5d41402abc4b2a76b9719d911017c592'', algorithm = ''md5''\<rparr>,
      group_files = [file_item ''/d/a.txt'' 5, file_item ''/d/b.txt'' 5],
      original = Some (file_item ''/d/a.txt'' 5)\<rparr>"

text \<open>
  A move to another volume (\<open>os.rename\<close> fails) whose copy breaks after two bytes, of a
  file of five bytes.
\<close>

definition env_cross_volume :: io_env where
  "env_cross_volume =
     \<lparr>rename_fails = (\<lambda>s d. True), copy_fault_of = (\<lambda>s d. WriteFault 2),
      unlink_fails = (\<lambda>p. False), mkdir_fails = (\<lambda>p. False), history_write_fails = False\<rparr>"

definition one_file_fs :: fs where
  "one_file_fs = [''/src/f.txt'' \<mapsto> ''hello'']"

section \<open>Invariants\<close>

text \<open>
  The digest under which the first loop of \<open>detect_duplicates\<close> files an item, if it can
  be hashed; and the state of \<open>hash_map\<close> after the files \<open>seen\<close>: its keys are distinct
  and each digest that occurred is mapped to the files seen with it, in their order.
\<close>

definition digest_of :: "(path \<Rightarrow> error + string) \<Rightarrow> string \<Rightarrow> FileItem \<Rightarrow> string option" where
  "digest_of reader alg f =
     (case compute_file_hash reader alg f of Inl e \<Rightarrow> None | Inr h \<Rightarrow> Some (digest h))"

definition hash_map_ok ::
  "(FileItem \<Rightarrow> string option) \<Rightarrow> FileItem list \<Rightarrow> (string \<times> FileItem list) list \<Rightarrow> bool" where
  "hash_map_ok dg seen hm =
     (distinct (map fst hm) \<and>
      map_of hm = (\<lambda>k. if filter (\<lambda>f. dg f = Some k) seen = [] then None
                        else Some (filter (\<lambda>f. dg f = Some k) seen)))"

text \<open>The invariant a bounded deque keeps by construction.\<close>

definition bounded :: "UndoManager \<Rightarrow> bool" where
  "bounded m = (length (undo_stack m) \<le> max_history m \<and> length (redo_stack m) \<le> max_history m)"

section \<open>Properties of the undo manager\<close>

lemma length_deque_append: "length (deque_append n xs x) \<le> n"
  by (simp add: deque_append_def)

lemma deque_append_fits: "length xs < n \<Longrightarrow> deque_append n xs x = xs @ [x]"
  by (simp add: deque_append_def)

lemma deque_pop_append:
  "xs \<noteq> [] \<Longrightarrow> length xs \<le> n \<Longrightarrow> deque_append n (butlast xs) (last xs) = xs"
  by (simp add: deque_append_def)

lemma record_operation_top:
  "0 < max_history m \<Longrightarrow>
   undo_stack (record_operation now typ src dst meta m) \<noteq> [] \<and>
   last (undo_stack (record_operation now typ src dst meta m)) =
     UndoOperation_init now typ src dst meta"
  by (simp add: record_operation_def Let_def deque_append_def)

lemma bounded_record_operation: "bounded (record_operation now typ src dst meta m)"
  by (simp add: bounded_def record_operation_def Let_def deque_append_def)

lemma bounded_init_empty: "bounded (UndoManager_init n None)"
  by (simp add: bounded_def UndoManager_init_def load_history_def)

text \<open>
  The first loop of \<open>undo_last_job\<close> in closed form: the job's operations are the longest
  run of entries, read from the top of the stack downwards, whose timestamps lie within
  60 seconds of the top entry's; they come out most recent first.
\<close>

lemma collect_job_operations_eq:
  "collect_job_operations t stack job =
     (rev (tl (dropWhile (\<lambda>x. t - timestamp x \<le> 60000000) (rev stack))),
      job @ takeWhile (\<lambda>x. t - timestamp x \<le> 60000000) (rev stack),
      take 1 (dropWhile (\<lambda>x. t - timestamp x \<le> 60000000) (rev stack)))"
proof (induction t stack job rule: collect_job_operations.induct)
  case (1 t stack job)
  show ?case
  proof (cases "stack = []")
    case True
    then show ?thesis by (simp add: collect_job_operations.simps)
  next
    case False
    then obtain ys y where st: "stack = ys @ [y]" by (metis rev_exhaust)
    show ?thesis
    proof (cases "t - timestamp y \<le> 60000000")
      case True
      with 1 st show ?thesis
        by (subst collect_job_operations.simps) simp
    next
      case False
      with st show ?thesis
        by (subst collect_job_operations.simps) simp
    qed
  qed
qed

text \<open>
  C1: \<open>undo_last_job\<close> should reverse the operations of the most recent job and no
  others. Here two jobs were recorded ten seconds apart, one move each. The call
  reverses both moves, the second job's first and the first job's after it: both
  entries end on the redo stack, the undo stack is empty, and the file of the first
  job is back at its source.
\<close>

theorem undo_last_job_merges_jobs:
  "redo_stack (fst (snd (undo_last_job env_ok two_jobs_manager two_jobs_fs))) =
     [UndoOperation_init 10000000 ''move'' ''/in/b.txt'' ''/out/b.txt'' [],
      UndoOperation_init 0 ''move'' ''/in/a.txt'' ''/out/a.txt'' []] \<and>
   undo_stack (fst (snd (undo_last_job env_ok two_jobs_manager two_jobs_fs))) = [] \<and>
   snd (snd (undo_last_job env_ok two_jobs_manager two_jobs_fs)) ''/in/a.txt'' = Some ''A'' \<and>
   snd (snd (undo_last_job env_ok two_jobs_manager two_jobs_fs)) ''/out/a.txt'' = None \<and>
   message (fst (undo_last_job env_ok two_jobs_manager two_jobs_fs)) = Undone 2 2"
  by (simp add: two_jobs_manager_def end_job_def record_operation_def start_job_def
        UndoManager_init_def load_history_def save_history_def env_ok_def Let_def
        deque_append_def undo_last_job_def collect_job_operations.simps two_jobs_fs_def
        reverse_operation_def shutil_move_def UndoOperation_init_def)

text \<open>
  C3: when the undo stack is not empty and reversing its top entry does not succeed
  (the reversal returns False or raises), \<open>undo_last_operation\<close> leaves the undo stack
  and the redo stack as they were before the call, and reports the failure: it returns
  False when the reversal returned False, and raises when the reversal raised.
\<close>

theorem undo_last_operation_failure_restores:
  assumes "bounded m" and "undo_stack m \<noteq> []"
    and "fst (reverse_operation env (last (undo_stack m)) fls) \<noteq> Inr True"
    and "undo_last_operation env m fls = (r, m', fls')"
  shows "undo_stack m' = undo_stack m \<and> redo_stack m' = redo_stack m \<and>
         r = (case fst (reverse_operation env (last (undo_stack m)) fls) of
                Inl e \<Rightarrow> Inl (UndoFailed e) | Inr b \<Rightarrow> Inr False)"
proof -
  from assms(1) have len: "length (undo_stack m) \<le> max_history m"
    by (simp add: bounded_def)
  have put_back:
    "deque_append (max_history m) (butlast (undo_stack m)) (last (undo_stack m)) = undo_stack m"
    using assms(2) len by (rule deque_pop_append)
  obtain res fls1 where rv: "reverse_operation env (last (undo_stack m)) fls = (res, fls1)"
    by (cases "reverse_operation env (last (undo_stack m)) fls")
  show ?thesis
  proof (cases res)
    case (Inl e)
    with assms(2,4) rv put_back show ?thesis
      by (auto simp: undo_last_operation_def Let_def)
  next
    case (Inr b)
    with assms(3) rv have "\<not> b" by simp
    with Inr assms(2,4) rv put_back show ?thesis
      by (auto simp: undo_last_operation_def Let_def)
  qed
qed

theorem undo_last_operation_failure_restores_witness:
  "bounded scenario3_manager \<and> undo_stack scenario3_manager \<noteq> [] \<and>
   fst (reverse_operation env_no_move (last (undo_stack scenario3_manager)) moved_fs) \<noteq> Inr True \<and>
   undo_stack (fst (snd (undo_last_operation env_no_move scenario3_manager moved_fs))) =
     undo_stack scenario3_manager \<and>
   redo_stack (fst (snd (undo_last_operation env_no_move scenario3_manager moved_fs))) =
     redo_stack scenario3_manager \<and>
   fst (undo_last_operation env_no_move scenario3_manager moved_fs) =
     Inl (UndoFailed (FailedToReverse ''move'' OSError))"
proof -
  have h1: "bounded scenario3_manager"
    by (simp add: scenario3_manager_def bounded_record_operation)
  have h2: "undo_stack scenario3_manager \<noteq> []"
    by (simp add: scenario3_manager_def record_operation_def Let_def UndoManager_init_def
          load_history_def deque_append_def)
  have rv: "fst (reverse_operation env_no_move (last (undo_stack scenario3_manager)) moved_fs) =
              Inl (FailedToReverse ''move'' OSError)"
    by (simp add: scenario3_manager_def record_operation_def Let_def UndoManager_init_def
          load_history_def deque_append_def reverse_operation_def UndoOperation_init_def
          moved_fs_def env_no_move_def shutil_move_def shutil_copy2_def)
  then have h3:
    "fst (reverse_operation env_no_move (last (undo_stack scenario3_manager)) moved_fs) \<noteq> Inr True"
    by simp
  have h4: "undo_last_operation env_no_move scenario3_manager moved_fs =
              (fst (undo_last_operation env_no_move scenario3_manager moved_fs),
               fst (snd (undo_last_operation env_no_move scenario3_manager moved_fs)),
               snd (snd (undo_last_operation env_no_move scenario3_manager moved_fs)))"
    by simp
  from undo_last_operation_failure_restores [OF h1 h2 h3 h4] rv h1 h2 h3
  show ?thesis by simp
qed

text \<open>
  C4, as stated: in scenario 3 the entry would be absent from the undo stack after the
  failed undo. It is not: the call returns False and the entry is on the undo stack.
\<close>

theorem undo_missing_destination_entry_kept:
  "fst (undo_last_operation env_ok scenario3_manager scenario3_fs) = Inr False \<and>
   UndoOperation_init 0 ''move'' ''/src/f.txt'' ''/dst/f.txt'' []
     \<in> set (undo_stack (fst (snd (undo_last_operation env_ok scenario3_manager scenario3_fs))))"
  by (simp add: scenario3_manager_def scenario3_fs_def record_operation_def Let_def
        UndoManager_init_def load_history_def deque_append_def reverse_operation_def
        UndoOperation_init_def undo_last_operation_def)

text \<open>
  C4, amended: after a move has been recorded (with room for at least one entry) and its
  destination no longer exists, \<open>undo_last_operation\<close> returns False, changes no file (so
  a source that did not exist still does not), and leaves the manager as it was: the
  entry is back on top of the undo stack.
\<close>

theorem undo_move_missing_destination:
  assumes "0 < max_history m" and "fls dst = None"
  shows "undo_last_operation env (record_operation now ''move'' src dst meta m) fls =
           (Inr False, record_operation now ''move'' src dst meta m, fls) \<and>
         undo_stack (record_operation now ''move'' src dst meta m) \<noteq> [] \<and>
         last (undo_stack (record_operation now ''move'' src dst meta m)) =
           UndoOperation_init now ''move'' src dst meta"
proof -
  let ?m = "record_operation now ''move'' src dst meta m"
  have top: "undo_stack ?m \<noteq> []"
    "last (undo_stack ?m) = UndoOperation_init now ''move'' src dst meta"
    using record_operation_top [OF assms(1)] by auto
  have "bounded ?m" by (rule bounded_record_operation)
  then have "length (undo_stack ?m) \<le> max_history ?m" by (simp add: bounded_def)
  with top(1) have put_back:
    "deque_append (max_history ?m) (butlast (undo_stack ?m)) (last (undo_stack ?m)) = undo_stack ?m"
    by (simp add: deque_pop_append)
  have rv: "reverse_operation env (UndoOperation_init now ''move'' src dst meta) fls = (Inr False, fls)"
    using assms(2) by (simp add: reverse_operation_def UndoOperation_init_def)
  have "undo_last_operation env ?m fls = (Inr False, ?m, fls)"
    using top put_back rv by (simp add: undo_last_operation_def Let_def)
  with top show ?thesis by simp
qed

theorem undo_move_missing_destination_witness:
  "0 < max_history (UndoManager_init 1000 None) \<and> scenario3_fs ''/dst/f.txt'' = None \<and>
   undo_last_operation env_ok scenario3_manager scenario3_fs =
     (Inr False, scenario3_manager, scenario3_fs) \<and>
   scenario3_fs ''/src/f.txt'' = None \<and>
   last (undo_stack scenario3_manager) =
     UndoOperation_init 0 ''move'' ''/src/f.txt'' ''/dst/f.txt'' []"
proof -
  have h1: "0 < max_history (UndoManager_init 1000 None)"
    by (simp add: UndoManager_init_def load_history_def)
  have h2: "scenario3_fs ''/dst/f.txt'' = None"
    by (simp add: scenario3_fs_def)
  from undo_move_missing_destination
         [where m = "UndoManager_init 1000 None" and fls = scenario3_fs
            and dst = "''/dst/f.txt''" and env = env_ok and now = 0
            and src = "''/src/f.txt''" and meta = "[]"] h1 h2
  show ?thesis by (simp add: scenario3_manager_def scenario3_fs_def)
qed

text \<open>
  C5: every call to \<open>record_operation\<close> leaves the redo stack empty, whatever the state
  of the manager before the call (in particular after any number of undos).
\<close>

theorem record_operation_clears_redo:
  "redo_stack (record_operation now typ src dst meta m) = []"
  by (simp add: record_operation_def Let_def)

section \<open>Properties of the scanner\<close>

lemma path_suffix_name: "path_name p = path_name q \<Longrightarrow> path_suffix p = path_suffix q"
  by (simp add: path_suffix_def)


lemma process_files_extension:
  assumes "E \<noteq> {}"
  shows "\<forall>f \<in> set (files_acc s). lower (path_suffix (path (item_path f))) \<in> E \<Longrightarrow>
         process_files (Some E) mn mx d1 d2 dp fs s = Inr s' \<Longrightarrow>
         \<forall>f \<in> set (files_acc s'). lower (path_suffix (path (item_path f))) \<in> E"
proof (induction fs arbitrary: s)
  case Nil
  then show ?case by simp
next
  case (Cons f fs)
  from Cons.prems(2) obtain fp where
    fp: "FilePath_init (path_join dp (file_name f)) (resolve_result f) = Inr fp"
    by (auto split: sum.splits)
  let ?s1 = "if \<not> should_include_file fp (stat_for_filter f) (Some E) mn mx d1 d2
             then s\<lparr>skipped_count := skipped_count s + 1\<rparr>
             else (case stat_for_item f of
                     Inr stat_info \<Rightarrow>
                       s\<lparr>files_acc := files_acc s @
                           [\<lparr>item_path = fp, size = st_size stat_info,
                             modified = st_mtime stat_info\<rparr>]\<rparr>
                   | Inl e \<Rightarrow>
                       s\<lparr>errors_acc := errors_acc s @ [CannotRead (path fp) e]\<rparr>)"
  from Cons.prems(2) fp have rest: "process_files (Some E) mn mx d1 d2 dp fs ?s1 = Inr s'"
    by simp
  have "\<forall>f \<in> set (files_acc ?s1). lower (path_suffix (path (item_path f))) \<in> E"
    using Cons.prems(1) assms
    by (auto simp: should_include_file_def split: sum.splits)
  from Cons.IH [OF this rest] show ?case .
qed

lemma walk_extension:
  fixes E :: "string set"
  assumes "E \<noteq> {}"
  shows "\<forall>f \<in> set (files_acc s). lower (path_suffix (path (item_path f))) \<in> E \<Longrightarrow>
         walk (Some E) mn mx d1 d2 ex dp t s = Inr s' \<Longrightarrow>
         \<forall>f \<in> set (files_acc s'). lower (path_suffix (path (item_path f))) \<in> E"
    and "\<forall>f \<in> set (files_acc s). lower (path_suffix (path (item_path f))) \<in> E \<Longrightarrow>
         walk_subdirs (Some E) mn mx d1 d2 ex dp ts s = Inr s' \<Longrightarrow>
         \<forall>f \<in> set (files_acc s'). lower (path_suffix (path (item_path f))) \<in> E"
proof (induction "Some E" mn mx d1 d2 ex dp t s and "Some E" mn mx d1 d2 ex dp ts s
       arbitrary: s' and s' rule: walk_walk_subdirs.induct)
  case (1 mn mx d1 d2 ex dp name rs st fs ds s)
  from 1(4) obtain folder_path where fp: "FilePath_init dp rs = Inr folder_path"
    by (auto split: sum.splits)
  show ?case
  proof (cases st)
    case (Inl e)
    with 1(4) fp have
      "walk_subdirs (Some E) mn mx d1 d2 ex dp ds
         (s\<lparr>errors_acc := errors_acc s @ [CannotAccessDirectory dp e]\<rparr>) = Inr s'"
      by simp
    moreover have "\<forall>f \<in> set (files_acc
         (s\<lparr>errors_acc := errors_acc s @ [CannotAccessDirectory dp e]\<rparr>)).
         lower (path_suffix (path (item_path f))) \<in> E"
      using 1(3) by simp
    ultimately show ?thesis using 1(1) [OF fp Inl] by blast
  next
    case (Inr folder_stat)
    let ?s0 = "s\<lparr>folders_acc := folders_acc s @
                 [\<lparr>folder_item_path = folder_path, folder_name = path_name dp,
                   created = st_ctime folder_stat, folder_modified = st_mtime folder_stat,
                   file_count = length fs\<rparr>]\<rparr>"
    from 1(4) fp Inr obtain s1 where
      pf: "process_files (Some E) mn mx d1 d2 dp fs ?s0 = Inr s1" and
      ws: "walk_subdirs (Some E) mn mx d1 d2 ex dp ds s1 = Inr s'"
      by (auto split: sum.splits)
    have "\<forall>f \<in> set (files_acc ?s0). lower (path_suffix (path (item_path f))) \<in> E"
      using 1(3) by simp
    from process_files_extension [OF assms this pf]
    have "\<forall>f \<in> set (files_acc s1). lower (path_suffix (path (item_path f))) \<in> E" .
    from 1(2) [OF fp Inr pf this ws] show ?thesis .
  qed
next
  case (2 mn mx d1 d2 ex dp s)
  then show ?case by simp
next
  case (3 mn mx d1 d2 ex dp d ds s)
  show ?case
  proof (cases "dir_name d \<in> ex")
    case True
    with 3(5) have "walk_subdirs (Some E) mn mx d1 d2 ex dp ds s = Inr s'" by simp
    from 3(1) [OF True 3(4) this] show ?thesis .
  next
    case False
    with 3(5) obtain s1 where
      w: "walk (Some E) mn mx d1 d2 ex (path_join dp (dir_name d)) d s = Inr s1" and
      ws: "walk_subdirs (Some E) mn mx d1 d2 ex dp ds s1 = Inr s'"
      by (auto split: sum.splits)
    from 3(2) [OF False 3(4) w]
    have "\<forall>f \<in> set (files_acc s1). lower (path_suffix (path (item_path f))) \<in> E" .
    from 3(3) [OF False w this ws] show ?thesis .
  qed
qed

text \<open>
  C6, as stated: with an extension filter \<open>E\<close>, every file returned has its extension in
  \<open>E\<close>. With the empty set as filter both files of scenario 1 are returned, and no
  extension is a member of the empty set; with the filter \<open>{.pdf}\<close> the file
  \<open>REPORT.PDF\<close> is returned, whose extension \<open>.PDF\<close> is not a member of the filter; and
  with the same filter the link \<open>link.pdf\<close> is returned, whose extension, read from the
  path it resolves to, is \<open>.exe\<close>.
\<close>

theorem scan_extension_filter_counterexample:
  "scan ''/folder'' scenario1_tree (Some {}) 0 None None None None =
     Inr \<lparr>files = [file_item ''/folder/report.pdf'' 500, file_item ''/folder/photo.jpg'' 200],
          folders = [folder_item 2], total_count = 2, scan_errors = []\<rparr> \<and>
   FileItem_extension (file_item ''/folder/report.pdf'' 500) \<notin> ({} :: string set) \<and>
   scan ''/folder'' capitals_tree (Some {''.pdf''}) 0 None None None None =
     Inr \<lparr>files = [file_item ''/folder/REPORT.PDF'' 500],
          folders = [folder_item 1], total_count = 1, scan_errors = []\<rparr> \<and>
   FileItem_extension (file_item ''/folder/REPORT.PDF'' 500) \<notin> {''.pdf''} \<and>
   scan ''/folder'' symlink_tree (Some {''.pdf''}) 0 None None None None =
     Inr \<lparr>files = [symlink_item],
          folders = [folder_item 1], total_count = 1, scan_errors = []\<rparr> \<and>
   FileItem_extension symlink_item = ''.exe'' \<and>
   lower (FileItem_extension symlink_item) \<notin> {''.pdf''}"
  by (simp add: scan_def scenario1_tree_def capitals_tree_def symlink_tree_def symlink_item_def
        regular_file_def file_item_def stat_ok_def folder_item_def FilePath_init_def
        exclude_or_default_def FileItem_extension_def
        should_include_file_def Let_def path_name_def path_join_def path_suffix_def
        lower_def lower_char_def)

text \<open>
  C6, amended: when \<open>scan\<close> is called with a non-empty extension set \<open>E\<close> and returns,
  every file in the result was listed under a path whose extension, put in lower case,
  is a member of \<open>E\<close>; and the file's own extension, put in lower case, is a member of
  \<open>E\<close> whenever the path resolves to a file of the same name.
\<close>

theorem scan_extension_filter:
  assumes "scan root_path tree (Some E) mn mx d1 d2 ex = Inr res" and "E \<noteq> {}"
  shows "(\<forall>f \<in> set (files res). lower (path_suffix (path (item_path f))) \<in> E) \<and>
         (\<forall>f \<in> set (files res).
            path_name (resolved (item_path f)) = path_name (path (item_path f)) \<longrightarrow>
            lower (FileItem_extension f) \<in> E)"
proof -
  from assms(1) obtain root where
    root: "FilePath_init root_path (dir_resolved tree) = Inr root"
    by (auto simp: scan_def split: sum.splits)
  with assms(1) obtain s where
    w: "walk (Some E) mn mx d1 d2 (exclude_or_default ex) (path root) tree
          \<lparr>files_acc = [], folders_acc = [], errors_acc = [], skipped_count = 0\<rparr> = Inr s"
    by (auto simp: scan_def split: sum.splits)
  from assms(1) root w have res: "files res = files_acc s"
    by (auto simp: scan_def)
  have "\<forall>f \<in> set (files_acc
           \<lparr>files_acc = [], folders_acc = [], errors_acc = [], skipped_count = 0\<rparr>).
          lower (path_suffix (path (item_path f))) \<in> E"
    by simp
  from walk_extension(1) [OF assms(2) this w] res
  have listed: "\<forall>f \<in> set (files res). lower (path_suffix (path (item_path f))) \<in> E"
    by simp
  have "lower (FileItem_extension f) \<in> E"
    if "f \<in> set (files res)"
      and "path_name (resolved (item_path f)) = path_name (path (item_path f))" for f
  proof -
    from that(2) have "FileItem_extension f = path_suffix (path (item_path f))"
      unfolding FileItem_extension_def by (rule path_suffix_name)
    with listed that(1) show ?thesis by simp
  qed
  with listed show ?thesis by blast
qed

theorem scan_extension_filter_witness:
  "scan ''/folder'' scenario1_tree (Some {''.pdf''}) 0 None None None None =
     Inr \<lparr>files = [file_item ''/folder/report.pdf'' 500],
          folders = [folder_item 2], total_count = 1, scan_errors = []\<rparr> \<and>
   {''.pdf''} \<noteq> ({} :: string set) \<and>
   lower (path_suffix (path (item_path (file_item ''/folder/report.pdf'' 500)))) \<in> {''.pdf''} \<and>
   lower (FileItem_extension (file_item ''/folder/report.pdf'' 500)) \<in> {''.pdf''}"
proof -
  have h1: "scan ''/folder'' scenario1_tree (Some {''.pdf''}) 0 None None None None =
     Inr \<lparr>files = [file_item ''/folder/report.pdf'' 500],
          folders = [folder_item 2], total_count = 1, scan_errors = []\<rparr>"
    by (simp add: scan_def scenario1_tree_def regular_file_def file_item_def stat_ok_def
          folder_item_def FilePath_init_def exclude_or_default_def
          should_include_file_def Let_def path_name_def path_join_def path_suffix_def
          lower_def lower_char_def)
  have h2: "{''.pdf''} \<noteq> ({} :: string set)" by simp
  have same: "path_name (resolved (item_path (file_item ''/folder/report.pdf'' 500))) =
              path_name (path (item_path (file_item ''/folder/report.pdf'' 500)))"
    by (simp add: file_item_def)
  note facts = scan_extension_filter [OF h1 h2]
  from facts have c1:
    "lower (path_suffix (path (item_path (file_item ''/folder/report.pdf'' 500)))) \<in> {''.pdf''}"
    by simp
  from facts same have c2: "lower (FileItem_extension (file_item ''/folder/report.pdf'' 500)) \<in> {''.pdf''}"
    by simp
  show ?thesis
    by (intro conjI) (rule h1 h2 c1 c2)+
qed

text \<open>
  C7: a file whose metadata cannot be read should appear in the error list of the
  result. Here the only file of the folder cannot be stat-ed; the scan returns no file
  and an empty error list.
\<close>

theorem scan_unreadable_file_not_reported:
  "scan ''/folder'' unreadable_tree None 0 None None None None =
     Inr \<lparr>files = [], folders = [folder_item 1], total_count = 0, scan_errors = []\<rparr>"
  by (simp add: scan_def unreadable_tree_def stat_ok_def folder_item_def FilePath_init_def
        exclude_or_default_def should_include_file_def Let_def path_name_def path_join_def)

text \<open>The handler in \<open>scan\<close> reports the file when only the second \<open>stat\<close> fails.\<close>

lemma scan_reports_second_stat_failure:
  "scan ''/folder'' vanishing_tree None 0 None None None None =
     Inr \<lparr>files = [], folders = [folder_item 1], total_count = 0,
          scan_errors = [CannotRead ''/folder/locked.txt'' OSError]\<rparr>"
  by (simp add: scan_def vanishing_tree_def stat_ok_def folder_item_def FilePath_init_def
        exclude_or_default_def should_include_file_def Let_def path_name_def path_join_def)










section \<open>Properties of the categorizer\<close>

text \<open>
  C8: after a successful \<open>load_from_config\<close> an extension absent from the loaded mapping
  should fall back to the default category. Here the service held the rule Documents:
  .pdf and the loaded mapping holds only Images: .jpg. The load succeeds and the rule
  set is the loaded mapping, yet \<open>report.pdf\<close> is still categorized as Documents, not as
  the default Other: the index keeps the entries of the previous rule set.
\<close>

theorem load_from_config_keeps_stale_index:
  "fst (load_from_config (Inr [(''Images'', [''.jpg''])])
          (CategorizationService_init (Some [(''Documents'', [''.pdf''])]) ''Other'')) = Inr () \<and>
   category_mappings loaded_service = [(''Images'', [''.jpg''])] \<and>
   default_category loaded_service = ''Other'' \<and>
   categorize loaded_service ''/docs/report.pdf'' = Inr ''Documents''"
  by (simp add: loaded_service_def load_from_config_def CategorizationService_init_def
        build_extension_map_def categorize_def Category_init_def lower_def lower_char_def
        path_suffix_def path_name_def Let_def)

section \<open>Properties of the duplicate detector\<close>

lemma compute_file_hash_Inr:
  "compute_file_hash reader alg f = Inr h \<Longrightarrow>
     h = \<lparr>digest = digest h, algorithm = alg\<rparr> \<and> FileHash_init (digest h) alg = Inr h"
  by (auto simp: compute_file_hash_def FileHash_init_def split: sum.splits if_splits)

lemma digest_of_Some:
  "digest_of reader alg f = Some k \<longleftrightarrow>
     compute_file_hash reader alg f = Inr \<lparr>digest = k, algorithm = alg\<rparr>"
  by (auto simp: digest_of_def split: sum.splits dest: compute_file_hash_Inr)

lemma hash_map_append_keys:
  "set (map fst (hash_map_append hm k v)) = insert k (set (map fst hm))"
  by (induction hm k v rule: hash_map_append.induct) auto

lemma hash_map_append_distinct:
  "distinct (map fst hm) \<Longrightarrow> distinct (map fst (hash_map_append hm k v))"
proof (induction hm k v rule: hash_map_append.induct)
  case (1 k v)
  then show ?case by simp
next
  case (2 k' vs rest k v)
  show ?case
  proof (cases "k' = k")
    case True
    with 2(2) show ?thesis by simp
  next
    case False
    from 2(2) have "k' \<notin> set (map fst rest)" by simp
    with False have "k' \<notin> set (map fst (hash_map_append rest k v))"
      by (simp only: hash_map_append_keys) simp
    moreover from 2(1) [OF False] 2(2) have "distinct (map fst (hash_map_append rest k v))"
      by simp
    ultimately show ?thesis using False by simp
  qed
qed

lemma map_of_hash_map_append:
  "map_of (hash_map_append hm k v) =
     (map_of hm)(k \<mapsto> (case map_of hm k of None \<Rightarrow> [v] | Some vs \<Rightarrow> vs @ [v]))"
  by (induction hm k v rule: hash_map_append.induct) (auto simp: fun_eq_iff)

lemma hash_map_append_ok:
  assumes "hash_map_ok dg seen hm" and "dg v = Some k"
  shows "hash_map_ok dg (seen @ [v]) (hash_map_append hm k v)"
proof -
  from assms(1) have d: "distinct (map fst hm)"
    and m: "map_of hm = (\<lambda>k. if filter (\<lambda>f. dg f = Some k) seen = [] then None
                        else Some (filter (\<lambda>f. dg f = Some k) seen))"
    by (simp_all add: hash_map_ok_def)
  have "map_of (hash_map_append hm k v) k' =
          (if filter (\<lambda>f. dg f = Some k') (seen @ [v]) = [] then None
           else Some (filter (\<lambda>f. dg f = Some k') (seen @ [v])))" for k'
    using assms(2) by (simp add: map_of_hash_map_append m)
  then have "map_of (hash_map_append hm k v) =
          (\<lambda>k'. if filter (\<lambda>f. dg f = Some k') (seen @ [v]) = [] then None
           else Some (filter (\<lambda>f. dg f = Some k') (seen @ [v])))"
    by (rule ext)
  with hash_map_append_distinct [OF d] show ?thesis
    by (simp add: hash_map_ok_def)
qed

lemma hash_map_skip_ok:
  assumes "hash_map_ok dg seen hm" and "dg v = None"
  shows "hash_map_ok dg (seen @ [v]) hm"
  using assms by (simp add: hash_map_ok_def cong: if_cong)

lemma hash_all_ok:
  "hash_map_ok (digest_of reader alg) seen hm \<Longrightarrow>
   hash_map_ok (digest_of reader alg) (seen @ fs) (hash_all reader alg fs hm)"
proof (induction fs arbitrary: seen hm)
  case Nil
  then show ?case by simp
next
  case (Cons f fs)
  show ?case
  proof (cases "compute_file_hash reader alg f")
    case (Inl e)
    then have "digest_of reader alg f = None" by (simp add: digest_of_def)
    from hash_map_skip_ok [OF Cons.prems this] Cons.IH [of "seen @ [f]" hm] Inl
    show ?thesis by simp
  next
    case (Inr h)
    then have "digest_of reader alg f = Some (digest h)" by (simp add: digest_of_def)
    from hash_map_append_ok [OF Cons.prems this]
      Cons.IH [of "seen @ [f]" "hash_map_append hm (digest h) f"] Inr
    show ?thesis by simp
  qed
qed

lemma group_duplicates_members:
  assumes "group_duplicates alg hm = Inr gs" and "g \<in> set gs"
  shows "\<exists>k vs. (k, vs) \<in> set hm \<and> 2 \<le> length vs \<and>
           group_hash g = \<lparr>digest = k, algorithm = alg\<rparr> \<and> group_files g = vs \<and>
           original g = Some (vs ! 0)"
  using assms
proof (induction alg hm arbitrary: gs rule: group_duplicates.induct)
  case (1 alg)
  then show ?case by simp
next
  case (2 alg hash_digest file_list rest)
  show ?case
  proof (cases "2 \<le> length file_list")
    case False
    with 2 show ?thesis by auto
  next
    case True
    with 2(3) obtain fh grp gs' where
      fh: "FileHash_init hash_digest alg = Inr fh" and
      grp: "DuplicateGroup_init fh file_list (Some (file_list ! 0)) = Inr grp" and
      rest: "group_duplicates alg rest = Inr gs'" and gs: "gs = grp # gs'"
      by (auto split: sum.splits)
    show ?thesis
    proof (cases "g = grp")
      case True
      with fh grp \<open>2 \<le> length file_list\<close> show ?thesis
        by (auto simp: FileHash_init_def DuplicateGroup_init_def split: if_splits)
    next
      case False
      with 2(4) gs have "g \<in> set gs'" by simp
      from 2(1) [OF True fh grp rest this] show ?thesis by auto
    qed
  qed
qed

lemma group_duplicates_total:
  "list_all (\<lambda>(k, vs). FileHash_init k alg \<noteq> Inl ValueError) hm \<Longrightarrow>
   \<exists>gs. group_duplicates alg hm = Inr gs"
proof (induction alg hm rule: group_duplicates.induct)
  case (1 alg)
  then show ?case by simp
next
  case (2 alg hash_digest file_list rest)
  show ?case
  proof (cases "2 \<le> length file_list")
    case False
    with 2 show ?thesis by simp
  next
    case True
    from 2(3) obtain fh where fh: "FileHash_init hash_digest alg = Inr fh"
      by (auto simp: FileHash_init_def split: if_splits)
    from True obtain grp where
      grp: "DuplicateGroup_init fh file_list (Some (file_list ! 0)) = Inr grp"
      by (simp add: DuplicateGroup_init_def)
    from 2(1) [OF True fh grp] 2(3) obtain gs where "group_duplicates alg rest = Inr gs"
      by auto
    with True fh grp show ?thesis by simp
  qed
qed

lemma hash_map_keys_valid:
  assumes "hash_map_ok (digest_of reader alg) seen hm"
  shows "list_all (\<lambda>(k, vs). FileHash_init k alg \<noteq> Inl ValueError) hm"
proof -
  have "FileHash_init k alg \<noteq> Inl ValueError" if "(k, vs) \<in> set hm" for k vs
  proof -
    from assms have "distinct (map fst hm)" by (simp add: hash_map_ok_def)
    with that have "map_of hm k = Some vs" by simp
    with assms have "filter (\<lambda>f. digest_of reader alg f = Some k) seen \<noteq> []"
      by (auto simp: hash_map_ok_def split: if_splits)
    then obtain f where "digest_of reader alg f = Some k"
      by (auto simp: filter_empty_conv)
    then obtain h where "compute_file_hash reader alg f = Inr h" and "digest h = k"
      by (auto simp: digest_of_def split: sum.splits)
    with compute_file_hash_Inr [of reader alg f h] show ?thesis by simp
  qed
  then show ?thesis by (auto simp: list_all_iff)
qed

text \<open>\<open>detect_duplicates\<close> returns a list of groups for every input.\<close>

lemma detect_duplicates_returns: "\<exists>gs. detect_duplicates reader alg fs = Inr gs"
proof -
  have "hash_map_ok (digest_of reader alg) ([] @ fs) (hash_all reader alg fs [])"
    by (rule hash_all_ok) (simp add: hash_map_ok_def)
  from group_duplicates_total [OF hash_map_keys_valid [OF this]]
  show ?thesis by (auto simp: detect_duplicates_def)
qed

text \<open>
  C2: every group returned by \<open>detect_duplicates\<close> has at least two files; every file of
  the group hashes to the group's hash; the files of the group are exactly the input
  files that hash to it, in input order, and the original is the first of them; and
  \<open>DuplicateGroup\<close> cannot be constructed with fewer than two files.
\<close>

theorem detect_duplicates_groups:
  assumes "detect_duplicates reader alg fs = Inr gs" and "g \<in> set gs"
  shows "2 \<le> length (group_files g) \<and>
         (\<forall>f \<in> set (group_files g). compute_file_hash reader alg f = Inr (group_hash g)) \<and>
         group_files g = filter (\<lambda>f. compute_file_hash reader alg f = Inr (group_hash g)) fs \<and>
         original g = Some (hd (group_files g)) \<and>
         (\<forall>h xs orig. length xs < 2 \<longrightarrow> DuplicateGroup_init h xs orig = Inl ValueError)"
proof -
  let ?hm = "hash_all reader alg fs []"
  have ok: "hash_map_ok (digest_of reader alg) ([] @ fs) ?hm"
    by (rule hash_all_ok) (simp add: hash_map_ok_def)
  from assms(1) have "group_duplicates alg ?hm = Inr gs"
    by (simp add: detect_duplicates_def split: sum.splits)
  from group_duplicates_members [OF this assms(2)] obtain k vs where
    mem: "(k, vs) \<in> set ?hm" and len: "2 \<le> length vs" and
    gh: "group_hash g = \<lparr>digest = k, algorithm = alg\<rparr>" and gf: "group_files g = vs" and
    orig: "original g = Some (vs ! 0)"
    by blast
  from ok have "distinct (map fst ?hm)" by (simp add: hash_map_ok_def)
  with mem have "map_of ?hm k = Some vs" by simp
  with ok have "vs = filter (\<lambda>f. digest_of reader alg f = Some k) fs"
    by (simp add: hash_map_ok_def split: if_splits)
  then have flt: "vs = filter (\<lambda>f. compute_file_hash reader alg f = Inr (group_hash g)) fs"
    by (simp add: digest_of_Some gh)
  have all: "\<forall>f \<in> set (group_files g). compute_file_hash reader alg f = Inr (group_hash g)"
  proof
    fix f
    assume "f \<in> set (group_files g)"
    with gf have "f \<in> set vs" by simp
    with flt have
      "f \<in> set (filter (\<lambda>f. compute_file_hash reader alg f = Inr (group_hash g)) fs)"
      by simp
    then show "compute_file_hash reader alg f = Inr (group_hash g)" by simp
  qed
  from len have "vs ! 0 = hd vs" by (cases vs) auto
  with flt all len gf orig show ?thesis
    by (simp add: DuplicateGroup_init_def)
qed

theorem detect_duplicates_groups_witness:
  "detect_duplicates scenario2_reader ''md5'' scenario2_files = Inr [scenario2_group] \<and>
   scenario2_group \<in> set [scenario2_group] \<and>
   2 \<le> length (group_files scenario2_group) \<and>
   group_files scenario2_group =
     filter (\<lambda>f. compute_file_hash scenario2_reader ''md5'' f = Inr (group_hash scenario2_group))
       scenario2_files \<and>
   original scenario2_group = Some (file_item ''/d/a.txt'' 5) \<and>
   DuplicateGroup_init (group_hash scenario2_group) [file_item ''/d/a.txt'' 5] None =
     Inl ValueError"
proof -
  have h1: "detect_duplicates scenario2_reader ''md5'' scenario2_files = Inr [scenario2_group]"
    by (simp add: detect_duplicates_def scenario2_files_def scenario2_reader_def file_item_def
          compute_file_hash_def HASH_ALGORITHMS_def FileHash_init_def isalnum_char_def
          DuplicateGroup_init_def scenario2_group_def)
  have h2: "scenario2_group \<in> set [scenario2_group]" by simp
  have o: "original scenario2_group = Some (file_item ''/d/a.txt'' 5)"
    by (simp add: scenario2_group_def)
  note facts = detect_duplicates_groups [OF h1 h2]
  from facts have c1: "2 \<le> length (group_files scenario2_group)"
    by (rule conjunct1)
  from facts have c3: "group_files scenario2_group =
     filter (\<lambda>f. compute_file_hash scenario2_reader ''md5'' f = Inr (group_hash scenario2_group))
       scenario2_files"
    by (elim conjE)
  from facts have c5:
    "\<forall>h xs orig. length xs < 2 \<longrightarrow> DuplicateGroup_init h xs orig = Inl ValueError"
    by (elim conjE)
  have "length [file_item ''/d/a.txt'' 5] < 2" by simp
  with c5 have c6: "DuplicateGroup_init (group_hash scenario2_group)
     [file_item ''/d/a.txt'' 5] None = Inl ValueError"
    by blast
  show ?thesis
    by (intro conjI) (rule h1 h2 c1 c3 o c6)+
qed

section \<open>Properties of moving files\<close>

text \<open>
  C9, as stated: when the copy of a move fails partway, the partial destination file
  would be removed before the failure is reported. Here the copy breaks after two of
  five bytes: the failure is reported and the destination holds the two bytes.
\<close>

theorem move_leaves_partial_destination:
  "fst (move_or_copy_file env_cross_volume ''move'' ''/src/f.txt'' ''/dst/f.txt'' one_file_fs) =
     Inl (FailedToMoveOrCopy ''move'' OSError) \<and>
   snd (move_or_copy_file env_cross_volume ''move'' ''/src/f.txt'' ''/dst/f.txt'' one_file_fs)
     ''/dst/f.txt'' = Some ''he''"
  by (simp add: move_or_copy_file_def shutil_move_def shutil_copy2_def env_cross_volume_def
        one_file_fs_def)

text \<open>
  C9, amended: when a move is performed as copy-then-delete (the rename fails) and the
  copy fails after \<open>k\<close> bytes, the failure is reported, the source file still exists with
  its content, and the destination is left holding the \<open>k\<close> bytes written.
\<close>

theorem move_copy_failure_keeps_source:
  assumes "fls src = Some content" and "src \<noteq> dst"
    and "rename_fails env src dst" and "copy_fault_of env src dst = WriteFault k"
  shows "move_or_copy_file env ''move'' src dst fls =
           (Inl (FailedToMoveOrCopy ''move'' OSError), fls(dst \<mapsto> take k content)) \<and>
         snd (move_or_copy_file env ''move'' src dst fls) src = Some content \<and>
         snd (move_or_copy_file env ''move'' src dst fls) dst = Some (take k content)"
  using assms
  by (simp add: move_or_copy_file_def shutil_move_def shutil_copy2_def)

theorem move_copy_failure_keeps_source_witness:
  "one_file_fs ''/src/f.txt'' = Some ''hello'' \<and> ''/src/f.txt'' \<noteq> ''/dst/f.txt'' \<and>
   rename_fails env_cross_volume ''/src/f.txt'' ''/dst/f.txt'' \<and>
   copy_fault_of env_cross_volume ''/src/f.txt'' ''/dst/f.txt'' = WriteFault 2 \<and>
   fst (move_or_copy_file env_cross_volume ''move'' ''/src/f.txt'' ''/dst/f.txt'' one_file_fs) =
     Inl (FailedToMoveOrCopy ''move'' OSError) \<and>
   snd (move_or_copy_file env_cross_volume ''move'' ''/src/f.txt'' ''/dst/f.txt'' one_file_fs)
     ''/src/f.txt'' = Some ''hello''"
proof -
  have h1: "one_file_fs ''/src/f.txt'' = Some ''hello''" by (simp add: one_file_fs_def)
  have h2: "''/src/f.txt'' \<noteq> ''/dst/f.txt''" by simp
  have h3: "rename_fails env_cross_volume ''/src/f.txt'' ''/dst/f.txt''"
    by (simp add: env_cross_volume_def)
  have h4: "copy_fault_of env_cross_volume ''/src/f.txt'' ''/dst/f.txt'' = WriteFault 2"
    by (simp add: env_cross_volume_def)
  from move_copy_failure_keeps_source
         [where fls = one_file_fs and src = "''/src/f.txt''" and dst = "''/dst/f.txt''"
            and content = "''hello''" and env = env_cross_volume and k = 2]
       h1 h3 h4 show ?thesis
    by simp
qed

text \<open>
  Whatever fails, a move of an existing file to another path leaves its content at the
  source or, complete, at the destination.
\<close>

lemma move_never_loses_content:
  assumes "fls src = Some content" and "src \<noteq> dst"
  shows "snd (move_or_copy_file env ''move'' src dst fls) src = Some content \<or>
         snd (move_or_copy_file env ''move'' src dst fls) dst = Some content"
  using assms
  by (simp add: move_or_copy_file_def shutil_move_def shutil_copy2_def
           split: copy_fault.splits)

text \<open>The same holds of \<open>FileOperations.move\<close>, which wraps the error.\<close>

lemma FileOperations_move_copy_failure:
  assumes "fls src = Some content" and "src \<noteq> dst" and "\<not> mkdir_fails env dst"
    and "rename_fails env src dst" and "copy_fault_of env src dst = WriteFault k"
  shows "FileOperations_move env src dst fls =
           (Inl (OperationFailedError ''move'' src dst), fls(dst \<mapsto> take k content))"
  using assms
  by (simp add: FileOperations_move_def shutil_move_def shutil_copy2_def)

end
